theory Spec2Isabelle
  imports Main "HOL-Library.Multiset"
begin

section \<open>Go strings and the library calls the program makes\<close>

text \<open>
  A Go string is a sequence of bytes, here a \<open>char list\<close>. The functions of this section
  stand for the calls into Go's standard library (\<open>strings\<close>, \<open>regexp\<close>, \<open>fmt\<close>) that
  the two versions of the generator make: \<open>src/main.go\<close> (banner "v2.2", fixed substring
  heuristics) and \<open>src/unnamed/part_000\<close> (banner "v3.2", configured regular expressions).
\<close>

datatype error = Error string

definition HasPrefix :: "string \<Rightarrow> string \<Rightarrow> bool" where
  \<comment> \<open>\<open>strings.HasPrefix(s, prefix)\<close>: \<open>len(s) >= len(prefix) && s[:len(prefix)] == prefix\<close>\<close>
  "HasPrefix s p = (length p \<le> length s \<and> take (length p) s = p)"

definition HasSuffix :: "string \<Rightarrow> string \<Rightarrow> bool" where
  "HasSuffix s p = (length p \<le> length s \<and> drop (length s - length p) s = p)"

fun Contains :: "string \<Rightarrow> string \<Rightarrow> bool" where
  \<comment> \<open>\<open>strings.Contains(s, substr)\<close>: \<open>substr\<close> occurs at some offset of \<open>s\<close>\<close>
  "Contains [] sub = (sub = [])"
| "Contains (c # cs) sub = (HasPrefix (c # cs) sub \<or> Contains cs sub)"

subsection \<open>strings.TrimSpace\<close>

text \<open>
  \<open>strings.TrimSpace\<close> removes leading and trailing white space as Unicode defines it
  (\<open>unicode.IsSpace\<close>). On the bytes of the string these are the six ASCII characters
  tab, line feed, vertical tab, form feed, carriage return and space, and the UTF-8
  encodings of U+0085, U+00A0, U+1680, U+2000 to U+200A, U+2028, U+2029, U+202F, U+205F
  and U+3000. A byte sequence that is not one of these decodes to a rune that is not
  white space (possibly the replacement rune), where trimming stops.
\<close>

definition spaceRunes :: "string list" where
  "spaceRunes =
    [[CHR 0x09], [CHR 0x0A], [CHR 0x0B], [CHR 0x0C], [CHR 0x0D], [CHR 0x20],
     [CHR 0xC2, CHR 0x85], [CHR 0xC2, CHR 0xA0],
     [CHR 0xE1, CHR 0x9A, CHR 0x80],
     [CHR 0xE2, CHR 0x80, CHR 0x80], [CHR 0xE2, CHR 0x80, CHR 0x81],
     [CHR 0xE2, CHR 0x80, CHR 0x82], [CHR 0xE2, CHR 0x80, CHR 0x83],
     [CHR 0xE2, CHR 0x80, CHR 0x84], [CHR 0xE2, CHR 0x80, CHR 0x85],
     [CHR 0xE2, CHR 0x80, CHR 0x86], [CHR 0xE2, CHR 0x80, CHR 0x87],
     [CHR 0xE2, CHR 0x80, CHR 0x88], [CHR 0xE2, CHR 0x80, CHR 0x89],
     [CHR 0xE2, CHR 0x80, CHR 0x8A],
     [CHR 0xE2, CHR 0x80, CHR 0xA8], [CHR 0xE2, CHR 0x80, CHR 0xA9],
     [CHR 0xE2, CHR 0x80, CHR 0xAF],
     [CHR 0xE2, CHR 0x81, CHR 0x9F],
     [CHR 0xE3, CHR 0x80, CHR 0x80]]"

definition leadingSpace :: "string \<Rightarrow> nat" where
  \<comment> \<open>width in bytes of the white-space rune the string starts with, 0 when it starts with none\<close>
  "leadingSpace s = (case find (HasPrefix s) spaceRunes of None \<Rightarrow> 0 | Some e \<Rightarrow> length e)"

definition trailingSpace :: "string \<Rightarrow> nat" where
  \<comment> \<open>width in bytes of the white-space rune the string ends with, 0 when it ends with none\<close>
  "trailingSpace s = (case find (HasSuffix s) spaceRunes of None \<Rightarrow> 0 | Some e \<Rightarrow> length e)"

function TrimLeftSpace :: "string \<Rightarrow> string" where
  "TrimLeftSpace s =
     (if leadingSpace s = 0 then s else TrimLeftSpace (drop (leadingSpace s) s))"
  by pat_completeness auto
termination
proof (relation "measure length")
  show "wf (measure length)" by simp
next
  fix s :: string
  assume "leadingSpace s \<noteq> 0"
  moreover have "leadingSpace s \<le> length s"
    by (auto simp: leadingSpace_def HasPrefix_def find_Some_iff split: option.splits)
  ultimately show "(drop (leadingSpace s) s, s) \<in> measure length" by simp
qed

function TrimRightSpace :: "string \<Rightarrow> string" where
  "TrimRightSpace s =
     (if trailingSpace s = 0 then s
      else TrimRightSpace (take (length s - trailingSpace s) s))"
  by pat_completeness auto
termination
proof (relation "measure length")
  show "wf (measure length)" by simp
next
  fix s :: string
  assume "trailingSpace s \<noteq> 0"
  moreover have "trailingSpace s \<le> length s"
    by (auto simp: trailingSpace_def HasSuffix_def find_Some_iff split: option.splits)
  ultimately show "(take (length s - trailingSpace s) s, s) \<in> measure length" by simp
qed

declare TrimLeftSpace.simps [simp del]
declare TrimRightSpace.simps [simp del]

definition TrimSpace :: "string \<Rightarrow> string" where
  "TrimSpace s = TrimRightSpace (TrimLeftSpace s)"

subsection \<open>The extraction pattern\<close>

text \<open>
  Both versions compile \<^verbatim>\<open>SIG=@GV\.([\w\d_]+)\s+TYPE=([A-Z]+)\<close> and call
  \<open>FindStringSubmatch\<close>, which returns the leftmost match. Go's classes are ASCII:
  \<^verbatim>\<open>\w\<close> is \<open>[0-9A-Za-z_]\<close> (it contains \<^verbatim>\<open>\d\<close> and the underscore), \<^verbatim>\<open>\s\<close> is
  tab, line feed, form feed, carriage return and space. Each repetition is greedy and is
  followed by something its class excludes (white space after the name, the letter T
  after the white space, the end of the pattern after the type), so at a given start the
  only match takes the longest run of each class.
\<close>

definition isWordChar :: "char \<Rightarrow> bool" where
  "isWordChar c =
     (let n = (of_char c :: nat)
      in (48 \<le> n \<and> n \<le> 57) \<or> (65 \<le> n \<and> n \<le> 90) \<or> n = 95 \<or> (97 \<le> n \<and> n \<le> 122))"

definition isReSpace :: "char \<Rightarrow> bool" where
  "isReSpace c = (c \<in> set [CHR 0x09, CHR 0x0A, CHR 0x0C, CHR 0x0D, CHR 0x20])"

definition isUpperChar :: "char \<Rightarrow> bool" where
  "isUpperChar c = (let n = (of_char c :: nat) in 65 \<le> n \<and> n \<le> 90)"

definition matchHere :: "string \<Rightarrow> (string \<times> string) option" where
  \<comment> \<open>the match of the pattern that starts at the first byte of the argument: its two groups\<close>
  "matchHere s =
     (if \<not> HasPrefix s ''SIG=@GV.'' then None
      else let r1 = drop 8 s;
               varName = takeWhile isWordChar r1;
               r2 = dropWhile isWordChar r1;
               r3 = dropWhile isReSpace r2
           in if varName = [] \<or> takeWhile isReSpace r2 = [] \<or> \<not> HasPrefix r3 ''TYPE='' then None
              else let varType = takeWhile isUpperChar (drop 5 r3)
                   in if varType = [] then None else Some (varName, varType))"

fun FindStringSubmatch :: "string \<Rightarrow> (string \<times> string) option" where
  \<comment> \<open>\<open>re.FindStringSubmatch(line)\<close>: \<open>matches[1]\<close> and \<open>matches[2]\<close> of the leftmost match,
      \<open>None\<close> for Go's \<open>nil\<close>\<close>
  "FindStringSubmatch [] = None"
| "FindStringSubmatch (c # cs) =
     (case matchHere (c # cs) of Some m \<Rightarrow> Some m | None \<Rightarrow> FindStringSubmatch cs)"

subsection \<open>regexp.MatchString and fmt\<close>

text \<open>
  \<open>regexp.MatchString(pattern, s)\<close> compiles a pattern of the configuration and reports
  whether it matches somewhere in \<open>s\<close>. The regular-expression engine is Go's, not this
  program's: it is a parameter of the model. It returns either a compile error (then
  Go's \<open>matched\<close> result is \<open>false\<close>) or the answer.
\<close>

type_synonym MatchString = "string \<Rightarrow> string \<Rightarrow> error + bool"

definition Sprintf_spare :: "string \<Rightarrow> string \<Rightarrow> string" where
  \<comment> \<open>\<open>fmt.Sprintf("%s(%s)", spare, varName)\<close>\<close>
  "Sprintf_spare spare varName = spare @ ''('' @ varName @ '')''"

definition Fprintln :: "string \<Rightarrow> string \<Rightarrow> string" where
  \<comment> \<open>\<open>fmt.Fprintln(w, item)\<close> on the bytes written to \<open>w\<close> so far\<close>
  "Fprintln w item = w @ item @ [CHR 0x0A]"

definition Fprintf_header :: "string \<Rightarrow> string \<Rightarrow> string \<Rightarrow> string" where
  \<comment> \<open>\<open>fmt.Fprintf(w, "*LIST %s   '%s'\n", code, title)\<close>\<close>
  "Fprintf_header w code title =
     w @ ''*LIST '' @ code @ ''   '' @ [CHR 0x27] @ title @ [CHR 0x27, CHR 0x0A]"

section \<open>Data model\<close>

record Spares =
  DO :: string
  DI :: string
  AO :: string
  AI :: string

record Classification =
  AnalogRegex :: "string list"
  DigitalRegex :: "string list"

text \<open>The \<open>App\<close> struct of version 2.2, and that of version 3.2, which adds \<open>Classification\<close>.\<close>

record App_v22 =
  SigExtPath :: string
  SigExtFlags :: string
  Spares :: Spares

record App_v32 = App_v22 +
  Classification :: Classification

record 'app Config =
  App :: 'app

text \<open>
  The global variables \<open>ListAO, ListAI, ListDO, ListDI\<close>, and the messages handed to the
  process logger (\<open>log.Printf\<close> and its siblings) so far, latest last.
\<close>

record Globals =
  ListAO :: "string list"
  ListAI :: "string list"
  ListDO :: "string list"
  ListDI :: "string list"
  LogOutput :: "string list"

text \<open>
  What \<open>bufio.Scanner\<close> delivers for the opened file: the lines for which \<open>Scan()\<close>
  returned true, in order, and the value of \<open>scanner.Err()\<close> after the loop.
\<close>

record SigFile =
  Lines :: "string list"
  ScanErr :: "error option"

section \<open>Version 3.2: classification by configured patterns\<close>

definition resetLists :: "Globals \<Rightarrow> Globals" where
  \<comment> \<open>\<open>ListAO, ListAI, ListDO, ListDI = []string{}, []string{}, []string{}, []string{}\<close>,
      the same statement in both versions\<close>
  "resetLists g = g\<lparr>ListAO := [], ListAI := [], ListDO := [], ListDI := []\<rparr>"

fun isMatchRegex :: "MatchString \<Rightarrow> string \<Rightarrow> string list \<Rightarrow> bool" where
  \<comment> \<open>\<open>matched, _ := regexp.MatchString(p, name)\<close>: the error is dropped\<close>
  "isMatchRegex M name [] = False"
| "isMatchRegex M name (p # patterns) =
     (let matched = (case M p name of Inl err \<Rightarrow> False | Inr b \<Rightarrow> b)
      in if matched then True else isMatchRegex M name patterns)"

definition classify_v32 ::
  "MatchString \<Rightarrow> App_v32 Config \<Rightarrow> string \<Rightarrow> string \<Rightarrow> Globals \<Rightarrow> Globals" where
  \<comment> \<open>the body of \<open>if matches != nil\<close>, with \<open>varName = matches[1]\<close>, \<open>varType = matches[2]\<close>\<close>
  "classify_v32 M cfg varName varType g =
     (let spares = Spares (App cfg);
          rules = Classification (App cfg);
          fullName = ''@GV.'' @ varName
      in if Contains varType ''AA'' \<or> Contains varType ''REAL'' then
           (if isMatchRegex M varName (AnalogRegex rules)
            then g\<lparr>ListAO := ListAO g @ [fullName],
                   ListAI := ListAI g @ [Sprintf_spare (AI spares) varName]\<rparr>
            else g\<lparr>ListAI := ListAI g @ [fullName],
                   ListAO := ListAO g @ [Sprintf_spare (AO spares) varName]\<rparr>)
         else if Contains varType ''LA'' \<or> Contains varType ''BOOL'' then
           (if isMatchRegex M varName (DigitalRegex rules)
            then g\<lparr>ListDO := ListDO g @ [fullName],
                   ListDI := ListDI g @ [Sprintf_spare (DI spares) varName]\<rparr>
            else g\<lparr>ListDI := ListDI g @ [fullName],
                   ListDO := ListDO g @ [Sprintf_spare (DO spares) varName]\<rparr>)
         else if varType = ''AO'' then
           g\<lparr>ListAO := ListAO g @ [fullName],
             ListAI := ListAI g @ [Sprintf_spare (AI spares) varName]\<rparr>
         else if varType = ''DO'' then
           g\<lparr>ListDO := ListDO g @ [fullName],
             ListDI := ListDI g @ [Sprintf_spare (DI spares) varName]\<rparr>
         else g)"

definition scanLine_v32 :: "MatchString \<Rightarrow> App_v32 Config \<Rightarrow> string \<Rightarrow> Globals \<Rightarrow> Globals" where
  \<comment> \<open>one iteration of \<open>for scanner.Scan()\<close>, on \<open>scanner.Text()\<close>\<close>
  "scanLine_v32 M cfg text g =
     (let line = TrimSpace text
      in if \<not> HasPrefix line ''SIG='' then g
         else case FindStringSubmatch line of
                None \<Rightarrow> g
              | Some (varName, varType) \<Rightarrow> classify_v32 M cfg varName varType g)"

fun scanLoop_v32 :: "MatchString \<Rightarrow> App_v32 Config \<Rightarrow> string list \<Rightarrow> Globals \<Rightarrow> Globals" where
  "scanLoop_v32 M cfg [] g = g"
| "scanLoop_v32 M cfg (text # rest) g = scanLoop_v32 M cfg rest (scanLine_v32 M cfg text g)"

definition processSigFile_v32 ::
  "MatchString \<Rightarrow> App_v32 Config \<Rightarrow> error + SigFile \<Rightarrow> Globals \<Rightarrow> error option \<times> Globals" where
  \<comment> \<open>\<open>opened\<close> is the outcome of \<open>os.Open(path)\<close>; the result is the returned error
      (\<open>None\<close> for \<open>nil\<close>) and the globals afterwards\<close>
  "processSigFile_v32 M cfg opened g =
     (case opened of
        Inl err \<Rightarrow> (Some err, g)
      | Inr file \<Rightarrow>
          (ScanErr file,
           scanLoop_v32 M cfg (Lines file)
             (resetLists g)))"

definition write_list :: "string \<Rightarrow> string \<Rightarrow> string \<Rightarrow> string list \<Rightarrow> string" where
  \<comment> \<open>the closure \<open>write\<close> of \<open>generateListsFile\<close>, on the bytes written to \<open>w\<close> so far\<close>
  "write_list w code title items =
     Fprintln (foldl Fprintln (Fprintf_header w code title) items) ''''"

definition generateListsFile_v32 ::
  "error option \<Rightarrow> error option \<Rightarrow> Globals \<Rightarrow> error + string" where
  \<comment> \<open>\<open>created\<close> is the error of \<open>os.Create(ListFile)\<close>, \<open>flushed\<close> that of \<open>w.Flush()\<close>;
      on success the result is the content of the file\<close>
  "generateListsFile_v32 created flushed g =
     (case created of
        Some err \<Rightarrow> Inl err
      | None \<Rightarrow>
          (let w0 = '''';
               w1 = write_list w0 ''32761'' ''ENTRADAS ANALOGICAS DNP'' (ListAI g);
               w2 = write_list w1 ''32762'' ''SALIDAS ANALOGICAS DNP'' (ListAO g);
               w3 = write_list w2 ''32763'' ''ENTRADAS DIGITALES DNP'' (ListDI g);
               w4 = write_list w3 ''32764'' ''SALIDAS DIGITALES DNP'' (ListDO g)
           in case flushed of Some err \<Rightarrow> Inl err | None \<Rightarrow> Inr w4))"

section \<open>Version 2.2: classification by fixed substrings\<close>

definition classify_v22 :: "App_v22 Config \<Rightarrow> string \<Rightarrow> string \<Rightarrow> Globals \<Rightarrow> Globals" where
  "classify_v22 cfg varName varType g =
     (let spares = Spares (App cfg);
          fullName = ''@GV.'' @ varName
      in if varType = ''AAR'' \<or> varType = ''AA'' then
           (let isLIT = Contains varName ''LIT'';
                isHiHi = Contains varName ''H_H'';
                isLoLo = Contains varName ''L_L'';
                isSP = Contains varName ''_SP'';
                isSPAN = Contains varName ''_SPAN'';
                isOutput = ((isLIT \<and> isHiHi) \<or> (isLIT \<and> isLoLo) \<or> (isSP \<and> \<not> isSPAN))
            in if isOutput
               then g\<lparr>ListAO := ListAO g @ [fullName], ListAI := ListAI g @ [fullName]\<rparr>
               else g\<lparr>ListAI := ListAI g @ [fullName], ListAO := ListAO g @ [AO spares]\<rparr>)
         else if varType = ''LA'' then
           (let isCmd = (Contains varName ''_RESET'' \<or> Contains varName ''_CMD'' \<or>
                         Contains varName ''_WD'' \<or> Contains varName ''_MANUAL'' \<or>
                         Contains varName ''_OUT'' \<or> Contains varName ''_PULSO'')
            in if isCmd
               then g\<lparr>ListDO := ListDO g @ [fullName], ListDI := ListDI g @ [DI spares]\<rparr>
               else g\<lparr>ListDI := ListDI g @ [fullName], ListDO := ListDO g @ [DO spares]\<rparr>)
         else if varType = ''AO'' then
           g\<lparr>ListAO := ListAO g @ [fullName], ListAI := ListAI g @ [AI spares]\<rparr>
         else if varType = ''DO'' then
           g\<lparr>ListDO := ListDO g @ [fullName], ListDI := ListDI g @ [DI spares]\<rparr>
         else g)"

definition scanLine_v22 :: "App_v22 Config \<Rightarrow> string \<Rightarrow> Globals \<Rightarrow> Globals" where
  "scanLine_v22 cfg text g =
     (let line = TrimSpace text
      in if \<not> HasPrefix line ''SIG='' then g
         else case FindStringSubmatch line of
                None \<Rightarrow> g
              | Some (varName, varType) \<Rightarrow> classify_v22 cfg varName varType g)"

fun scanLoop_v22 :: "App_v22 Config \<Rightarrow> string list \<Rightarrow> Globals \<Rightarrow> Globals" where
  "scanLoop_v22 cfg [] g = g"
| "scanLoop_v22 cfg (text # rest) g = scanLoop_v22 cfg rest (scanLine_v22 cfg text g)"

definition processSigFile_v22 ::
  "App_v22 Config \<Rightarrow> error + SigFile \<Rightarrow> Globals \<Rightarrow> error option \<times> Globals" where
  "processSigFile_v22 cfg opened g =
     (case opened of
        Inl err \<Rightarrow> (Some err, g)
      | Inr file \<Rightarrow>
          (ScanErr file,
           scanLoop_v22 cfg (Lines file)
             (resetLists g)))"

definition generateListsFile_v22 ::
  "error option \<Rightarrow> error option \<Rightarrow> Globals \<Rightarrow> error + string" where
  "generateListsFile_v22 created flushed g =
     (case created of
        Some err \<Rightarrow> Inl err
      | None \<Rightarrow>
          (let w0 = '''';
               w1 = write_list w0 ''32764'' ''SALIDAS DIGITALES DNP'' (ListDO g);
               w2 = write_list w1 ''32763'' ''ENTRADAS DIGITALES DNP'' (ListDI g);
               w3 = write_list w2 ''32762'' ''SALIDAS ANALOGICAS DNP'' (ListAO g);
               w4 = write_list w3 ''32761'' ''ENTRADAS ANALOGICAS DNP'' (ListAI g)
           in case flushed of Some err \<Rightarrow> Inl err | None \<Rightarrow> Inr w4))"

section \<open>Notions used to state the properties\<close>

text \<open>A state with no entries, and the state \<open>g\<close> with the entries of \<open>d\<close> appended list by list.\<close>

definition noEntries :: Globals where
  "noEntries = \<lparr>ListAO = [], ListAI = [], ListDO = [], ListDI = [], LogOutput = []\<rparr>"

definition appendAll :: "Globals \<Rightarrow> Globals \<Rightarrow> Globals" where
  "appendAll g d = g\<lparr>ListAO := ListAO g @ ListAO d, ListAI := ListAI g @ ListAI d,
                     ListDO := ListDO g @ ListDO d, ListDI := ListDI g @ ListDI d\<rparr>"


text \<open>
  How the \<open>if\<close> chain of the loop body dispatches on the type tag. Version 3.2 tests
  first whether the tag contains \<open>AA\<close> or \<open>REAL\<close>, then whether it contains \<open>LA\<close> or
  \<open>BOOL\<close>, then whether it is \<open>AO\<close>, then whether it is \<open>DO\<close>; version 2.2 compares the
  tag with \<open>AAR\<close>, \<open>AA\<close>, \<open>LA\<close>, \<open>AO\<close> and \<open>DO\<close>.
\<close>

definition analogTag_v32 :: "string \<Rightarrow> bool" where
  "analogTag_v32 t = (Contains t ''AA'' \<or> Contains t ''REAL'' \<or> t = ''AO'')"

definition digitalTag_v32 :: "string \<Rightarrow> bool" where
  "digitalTag_v32 t =
     ((Contains t ''LA'' \<or> Contains t ''BOOL'' \<or> t = ''DO'') \<and>
      \<not> Contains t ''AA'' \<and> \<not> Contains t ''REAL'')"

definition analogTag_v22 :: "string \<Rightarrow> bool" where
  "analogTag_v22 t = (t = ''AAR'' \<or> t = ''AA'' \<or> t = ''AO'')"

definition digitalTag_v22 :: "string \<Rightarrow> bool" where
  "digitalTag_v22 t = (t = ''LA'' \<or> t = ''DO'')"

text \<open>
  The two substring heuristics of version 2.2, as its locals \<open>isOutput\<close> (with \<open>isLIT\<close>,
  \<open>isHiHi\<close>, \<open>isLoLo\<close>, \<open>isSP\<close>, \<open>isSPAN\<close> written out) and \<open>isCmd\<close> compute them.
\<close>

definition isOutput_v22 :: "string \<Rightarrow> bool" where
  "isOutput_v22 varName =
     ((Contains varName ''LIT'' \<and> Contains varName ''H_H'') \<or>
      (Contains varName ''LIT'' \<and> Contains varName ''L_L'') \<or>
      (Contains varName ''_SP'' \<and> \<not> Contains varName ''_SPAN''))"

definition isCmd_v22 :: "string \<Rightarrow> bool" where
  "isCmd_v22 varName =
     (Contains varName ''_RESET'' \<or> Contains varName ''_CMD'' \<or>
      Contains varName ''_WD'' \<or> Contains varName ''_MANUAL'' \<or>
      Contains varName ''_OUT'' \<or> Contains varName ''_PULSO'')"

definition appendsOne :: "string list \<Rightarrow> string list \<Rightarrow> bool" where
  \<comment> \<open>the second list is the first with exactly one entry appended\<close>
  "appendsOne xs xs' = (length xs' = length xs + 1 \<and> take (length xs) xs' = xs)"

text \<open>
  The file format in the specification's words: a section is a header line, one line per
  entry and one empty line; a text is its lines, each ended by a line feed.
\<close>

definition spec_section :: "string \<Rightarrow> string \<Rightarrow> string list \<Rightarrow> string list" where
  "spec_section code title entries =
     (''*LIST '' @ code @ ''   '' @ [CHR 0x27] @ title @ [CHR 0x27]) # entries @ ['''']"

definition spec_text :: "string list \<Rightarrow> string" where
  "spec_text ls = concat (map (\<lambda>l. l @ [CHR 0x0A]) ls)"

subsection \<open>Concrete inputs\<close>

text \<open>
  A stand-in for \<open>regexp.MatchString\<close> on the two kinds of pattern the examples use: it
  agrees with Go on the pattern \<^verbatim>\<open>(\<close>, which does not compile (missing closing
  parenthesis), and on patterns made of letters, digits and underscores, which match where
  they occur literally. It is applied to no other pattern.
\<close>

definition sampleMatchString :: MatchString where
  "sampleMatchString p s =
     (if p = ''('' then Inl (Error ''error parsing regexp: missing closing )'')
      else Inr (Contains s p))"

definition sampleSpares :: Spares where
  "sampleSpares = \<lparr>DO = ''SPARE_DO'', DI = ''SPARE_DI'', AO = ''SPARE_AO'', AI = ''SPARE_AI''\<rparr>"

definition sampleConfig_v32 :: "App_v32 Config" where
  "sampleConfig_v32 =
     \<lparr>App = \<lparr>SigExtPath = ''SIGEXT.exe'', SigExtFlags = '''', Spares = sampleSpares,
             Classification = \<lparr>AnalogRegex = [''('', ''_SP''], DigitalRegex = [''_CMD'']\<rparr>\<rparr>\<rparr>"

definition sampleConfig_v22 :: "App_v22 Config" where
  "sampleConfig_v22 =
     \<lparr>App = \<lparr>SigExtPath = ''SIGEXT.exe'', SigExtFlags = '''', Spares = sampleSpares\<rparr>\<rparr>"

definition sampleFile :: SigFile where
  "sampleFile =
     \<lparr>Lines = [''SIG=@GV.PUMP2 TYPE=AO'', ''NOTES=random text'', ''  SIG=@GV.T1_SP TYPE=AA '',
               ''SIG=@GV.VALVE1_CMD TYPE=LA'', ''SIG=@GV.Q TYPE=ZZ'',
               ''SIG=@GV.FT041_H_H TYPE=AA''],
      ScanErr = None\<rparr>"

definition sampleLists :: Globals where
  "sampleLists =
     \<lparr>ListAO = [''@GV.PUMP2''], ListAI = [''SPARE_AI(PUMP2)''],
      ListDO = [''@GV.VALVE1_CMD''], ListDI = [''SPARE_DI(VALVE1_CMD)''], LogOutput = []\<rparr>"

definition staleGlobals :: Globals where
  "staleGlobals =
     \<lparr>ListAO = [''stale''], ListAI = [], ListDO = [], ListDI = [''stale'', ''stale''],
      LogOutput = []\<rparr>"

section \<open>Every step appends, and only to the four lists\<close>

lemma appendAll_sel [simp]:
  "ListAO (appendAll g d) = ListAO g @ ListAO d"
  "ListAI (appendAll g d) = ListAI g @ ListAI d"
  "ListDO (appendAll g d) = ListDO g @ ListDO d"
  "ListDI (appendAll g d) = ListDI g @ ListDI d"
  "LogOutput (appendAll g d) = LogOutput g"
  by (simp_all add: appendAll_def)

lemma appendAll_noEntries [simp]: "appendAll g noEntries = g"
  by (simp add: appendAll_def noEntries_def)

lemma appendAll_assoc: "appendAll (appendAll g d) e = appendAll g (appendAll d e)"
  by (simp add: appendAll_def)

lemma noEntries_sel [simp]:
  "ListAO noEntries = []" "ListAI noEntries = []" "ListDO noEntries = []" "ListDI noEntries = []"
  by (simp_all add: noEntries_def)

lemma resetLists_sel [simp]:
  "ListAO (resetLists g) = []" "ListAI (resetLists g) = []"
  "ListDO (resetLists g) = []" "ListDI (resetLists g) = []"
  "LogOutput (resetLists g) = LogOutput g"
  by (simp_all add: resetLists_def)

lemma classify_v32_delta:
  "classify_v32 M cfg n t g = appendAll g (classify_v32 M cfg n t noEntries)"
  by (simp add: classify_v32_def appendAll_def noEntries_def Let_def)

lemma classify_v22_delta:
  "classify_v22 cfg n t g = appendAll g (classify_v22 cfg n t noEntries)"
  by (simp add: classify_v22_def appendAll_def noEntries_def Let_def)

lemma scanLine_v32_delta:
  "scanLine_v32 M cfg l g = appendAll g (scanLine_v32 M cfg l noEntries)"
  using classify_v32_delta [of M cfg _ _ g]
  by (simp add: scanLine_v32_def Let_def split: option.splits)

lemma scanLine_v22_delta:
  "scanLine_v22 cfg l g = appendAll g (scanLine_v22 cfg l noEntries)"
  using classify_v22_delta [of cfg _ _ g]
  by (simp add: scanLine_v22_def Let_def split: option.splits)

lemma scanLoop_v32_delta:
  "scanLoop_v32 M cfg ls g = appendAll g (scanLoop_v32 M cfg ls noEntries)"
proof (induction ls arbitrary: g)
  case Nil
  show ?case by simp
next
  case (Cons l ls)
  have "scanLoop_v32 M cfg (l # ls) g = scanLoop_v32 M cfg ls (scanLine_v32 M cfg l g)"
    by simp
  also have "\<dots> = appendAll (scanLine_v32 M cfg l g) (scanLoop_v32 M cfg ls noEntries)"
    by (rule Cons.IH)
  also have "\<dots> = appendAll (appendAll g (scanLine_v32 M cfg l noEntries))
                     (scanLoop_v32 M cfg ls noEntries)"
    using scanLine_v32_delta [of M cfg l g] by simp
  also have "\<dots> = appendAll g (appendAll (scanLine_v32 M cfg l noEntries)
                                 (scanLoop_v32 M cfg ls noEntries))"
    by (rule appendAll_assoc)
  also have "\<dots> = appendAll g (scanLoop_v32 M cfg (l # ls) noEntries)"
    using Cons.IH [of "scanLine_v32 M cfg l noEntries"] by simp
  finally show ?case .
qed

lemma scanLoop_v22_delta:
  "scanLoop_v22 cfg ls g = appendAll g (scanLoop_v22 cfg ls noEntries)"
proof (induction ls arbitrary: g)
  case Nil
  show ?case by simp
next
  case (Cons l ls)
  have "scanLoop_v22 cfg (l # ls) g = scanLoop_v22 cfg ls (scanLine_v22 cfg l g)"
    by simp
  also have "\<dots> = appendAll (scanLine_v22 cfg l g) (scanLoop_v22 cfg ls noEntries)"
    by (rule Cons.IH)
  also have "\<dots> = appendAll (appendAll g (scanLine_v22 cfg l noEntries))
                     (scanLoop_v22 cfg ls noEntries)"
    using scanLine_v22_delta [of cfg l g] by simp
  also have "\<dots> = appendAll g (appendAll (scanLine_v22 cfg l noEntries)
                                 (scanLoop_v22 cfg ls noEntries))"
    by (rule appendAll_assoc)
  also have "\<dots> = appendAll g (scanLoop_v22 cfg (l # ls) noEntries)"
    using Cons.IH [of "scanLine_v22 cfg l noEntries"] by simp
  finally show ?case .
qed

lemma scanLoop_v32_step:
  "scanLoop_v32 M cfg (l # ls) noEntries =
   appendAll (scanLine_v32 M cfg l noEntries) (scanLoop_v32 M cfg ls noEntries)"
  using scanLoop_v32_delta [of M cfg ls "scanLine_v32 M cfg l noEntries"] by simp

lemma scanLoop_v22_step:
  "scanLoop_v22 cfg (l # ls) noEntries =
   appendAll (scanLine_v22 cfg l noEntries) (scanLoop_v22 cfg ls noEntries)"
  using scanLoop_v22_delta [of cfg ls "scanLine_v22 cfg l noEntries"] by simp

lemma processSigFile_v32_opened:
  "processSigFile_v32 M cfg (Inr file) g =
   (ScanErr file, appendAll (resetLists g) (scanLoop_v32 M cfg (Lines file) noEntries))"
  using scanLoop_v32_delta [of M cfg "Lines file" "resetLists g"]
  by (simp add: processSigFile_v32_def)

lemma processSigFile_v22_opened:
  "processSigFile_v22 cfg (Inr file) g =
   (ScanErr file, appendAll (resetLists g) (scanLoop_v22 cfg (Lines file) noEntries))"
  using scanLoop_v22_delta [of cfg "Lines file" "resetLists g"]
  by (simp add: processSigFile_v22_def)

section \<open>The mirror invariant\<close>










section \<open>The lists depend on the file and the configuration only\<close>

text \<open>
  Claim C10. Once the file is open, \<open>processSigFile\<close> empties the four lists before the
  first line is scanned: two calls on the same file and configuration, from any two states
  of the globals, return the same error and leave the same four lists; in both versions.
\<close>

theorem lists_reset_before_scan:
  "fst (processSigFile_v32 M cfg (Inr file) g1) = fst (processSigFile_v32 M cfg (Inr file) g2)
   \<and> ListAO (snd (processSigFile_v32 M cfg (Inr file) g1)) =
     ListAO (snd (processSigFile_v32 M cfg (Inr file) g2))
   \<and> ListAI (snd (processSigFile_v32 M cfg (Inr file) g1)) =
     ListAI (snd (processSigFile_v32 M cfg (Inr file) g2))
   \<and> ListDO (snd (processSigFile_v32 M cfg (Inr file) g1)) =
     ListDO (snd (processSigFile_v32 M cfg (Inr file) g2))
   \<and> ListDI (snd (processSigFile_v32 M cfg (Inr file) g1)) =
     ListDI (snd (processSigFile_v32 M cfg (Inr file) g2))
   \<and> fst (processSigFile_v22 cfg' (Inr file) g1) = fst (processSigFile_v22 cfg' (Inr file) g2)
   \<and> ListAO (snd (processSigFile_v22 cfg' (Inr file) g1)) =
     ListAO (snd (processSigFile_v22 cfg' (Inr file) g2))
   \<and> ListAI (snd (processSigFile_v22 cfg' (Inr file) g1)) =
     ListAI (snd (processSigFile_v22 cfg' (Inr file) g2))
   \<and> ListDO (snd (processSigFile_v22 cfg' (Inr file) g1)) =
     ListDO (snd (processSigFile_v22 cfg' (Inr file) g2))
   \<and> ListDI (snd (processSigFile_v22 cfg' (Inr file) g1)) =
     ListDI (snd (processSigFile_v22 cfg' (Inr file) g2))"
  by (simp add: processSigFile_v32_opened processSigFile_v22_opened)

theorem lists_reset_before_scan_witness:
  "ListAO staleGlobals \<noteq> ListAO noEntries
   \<and> ListAO (snd (processSigFile_v32 sampleMatchString sampleConfig_v32 (Inr sampleFile) staleGlobals)) =
     ListAO (snd (processSigFile_v32 sampleMatchString sampleConfig_v32 (Inr sampleFile) noEntries))
   \<and> ListDI (snd (processSigFile_v32 sampleMatchString sampleConfig_v32 (Inr sampleFile) staleGlobals)) =
     ListDI (snd (processSigFile_v32 sampleMatchString sampleConfig_v32 (Inr sampleFile) noEntries))
   \<and> ListAO (snd (processSigFile_v22 sampleConfig_v22 (Inr sampleFile) staleGlobals)) =
     ListAO (snd (processSigFile_v22 sampleConfig_v22 (Inr sampleFile) noEntries))
   \<and> ListDI (snd (processSigFile_v22 sampleConfig_v22 (Inr sampleFile) staleGlobals)) =
     ListDI (snd (processSigFile_v22 sampleConfig_v22 (Inr sampleFile) noEntries))"
proof -
  have "ListAO staleGlobals \<noteq> ListAO noEntries"
    by (simp add: staleGlobals_def)
  then show ?thesis
    using lists_reset_before_scan
      [of sampleMatchString sampleConfig_v32 sampleFile staleGlobals noEntries sampleConfig_v22]
    by simp
qed

section \<open>Order of the entries\<close>

lemma scanLoop_v32_concat:
  "ListAO (scanLoop_v32 M cfg ls noEntries) =
     concat (map (\<lambda>l. ListAO (scanLine_v32 M cfg l noEntries)) ls)"
  "ListAI (scanLoop_v32 M cfg ls noEntries) =
     concat (map (\<lambda>l. ListAI (scanLine_v32 M cfg l noEntries)) ls)"
  "ListDO (scanLoop_v32 M cfg ls noEntries) =
     concat (map (\<lambda>l. ListDO (scanLine_v32 M cfg l noEntries)) ls)"
  "ListDI (scanLoop_v32 M cfg ls noEntries) =
     concat (map (\<lambda>l. ListDI (scanLine_v32 M cfg l noEntries)) ls)"
proof (induction ls)
  case Nil
  {
    case 1 show ?case by simp
  next
    case 2 show ?case by simp
  next
    case 3 show ?case by simp
  next
    case 4 show ?case by simp
  }
next
  case (Cons l ls)
  {
    case 1 show ?case by (simp only: scanLoop_v32_step appendAll_sel Cons.IH list.map concat.simps)
  next
    case 2 show ?case by (simp only: scanLoop_v32_step appendAll_sel Cons.IH list.map concat.simps)
  next
    case 3 show ?case by (simp only: scanLoop_v32_step appendAll_sel Cons.IH list.map concat.simps)
  next
    case 4 show ?case by (simp only: scanLoop_v32_step appendAll_sel Cons.IH list.map concat.simps)
  }
qed

lemma scanLoop_v22_concat:
  "ListAO (scanLoop_v22 cfg ls noEntries) =
     concat (map (\<lambda>l. ListAO (scanLine_v22 cfg l noEntries)) ls)"
  "ListAI (scanLoop_v22 cfg ls noEntries) =
     concat (map (\<lambda>l. ListAI (scanLine_v22 cfg l noEntries)) ls)"
  "ListDO (scanLoop_v22 cfg ls noEntries) =
     concat (map (\<lambda>l. ListDO (scanLine_v22 cfg l noEntries)) ls)"
  "ListDI (scanLoop_v22 cfg ls noEntries) =
     concat (map (\<lambda>l. ListDI (scanLine_v22 cfg l noEntries)) ls)"
proof (induction ls)
  case Nil
  {
    case 1 show ?case by simp
  next
    case 2 show ?case by simp
  next
    case 3 show ?case by simp
  next
    case 4 show ?case by simp
  }
next
  case (Cons l ls)
  {
    case 1 show ?case by (simp only: scanLoop_v22_step appendAll_sel Cons.IH list.map concat.simps)
  next
    case 2 show ?case by (simp only: scanLoop_v22_step appendAll_sel Cons.IH list.map concat.simps)
  next
    case 3 show ?case by (simp only: scanLoop_v22_step appendAll_sel Cons.IH list.map concat.simps)
  next
    case 4 show ?case by (simp only: scanLoop_v22_step appendAll_sel Cons.IH list.map concat.simps)
  }
qed

text \<open>
  Claim C7. Each of the four lists left by \<open>processSigFile\<close> is the concatenation, in the
  order of the scanned lines, of what each line alone appends to that list: the entries
  of an earlier line come before those of a later line, and nothing is removed, merged or
  moved; in both versions.
\<close>

theorem entries_in_line_order:
  "ListAO (snd (processSigFile_v32 M cfg (Inr file) g)) =
     concat (map (\<lambda>l. ListAO (scanLine_v32 M cfg l noEntries)) (Lines file))
   \<and> ListAI (snd (processSigFile_v32 M cfg (Inr file) g)) =
     concat (map (\<lambda>l. ListAI (scanLine_v32 M cfg l noEntries)) (Lines file))
   \<and> ListDO (snd (processSigFile_v32 M cfg (Inr file) g)) =
     concat (map (\<lambda>l. ListDO (scanLine_v32 M cfg l noEntries)) (Lines file))
   \<and> ListDI (snd (processSigFile_v32 M cfg (Inr file) g)) =
     concat (map (\<lambda>l. ListDI (scanLine_v32 M cfg l noEntries)) (Lines file))
   \<and> ListAO (snd (processSigFile_v22 cfg' (Inr file) g)) =
     concat (map (\<lambda>l. ListAO (scanLine_v22 cfg' l noEntries)) (Lines file))
   \<and> ListAI (snd (processSigFile_v22 cfg' (Inr file) g)) =
     concat (map (\<lambda>l. ListAI (scanLine_v22 cfg' l noEntries)) (Lines file))
   \<and> ListDO (snd (processSigFile_v22 cfg' (Inr file) g)) =
     concat (map (\<lambda>l. ListDO (scanLine_v22 cfg' l noEntries)) (Lines file))
   \<and> ListDI (snd (processSigFile_v22 cfg' (Inr file) g)) =
     concat (map (\<lambda>l. ListDI (scanLine_v22 cfg' l noEntries)) (Lines file))"
  by (simp add: processSigFile_v32_opened processSigFile_v22_opened
        scanLoop_v32_concat scanLoop_v22_concat)

theorem entries_in_line_order_witness:
  "ListAO (snd (processSigFile_v32 sampleMatchString sampleConfig_v32 (Inr sampleFile) staleGlobals)) =
     [''@GV.PUMP2'', ''@GV.T1_SP'', ''SPARE_AO(FT041_H_H)'']
   \<and> ListAI (snd (processSigFile_v22 sampleConfig_v22 (Inr sampleFile) staleGlobals)) =
     [''SPARE_AI'', ''@GV.T1_SP'', ''@GV.FT041_H_H'']"
proof -
  have "concat (map (\<lambda>l. ListAO (scanLine_v32 sampleMatchString sampleConfig_v32 l noEntries))
          (Lines sampleFile)) = [''@GV.PUMP2'', ''@GV.T1_SP'', ''SPARE_AO(FT041_H_H)'']"
    by code_simp
  moreover have "concat (map (\<lambda>l. ListAI (scanLine_v22 sampleConfig_v22 l noEntries))
          (Lines sampleFile)) = [''SPARE_AI'', ''@GV.T1_SP'', ''@GV.FT041_H_H'']"
    by code_simp
  ultimately show ?thesis
    using entries_in_line_order
      [of sampleMatchString sampleConfig_v32 sampleFile staleGlobals sampleConfig_v22]
    by simp
qed

section \<open>Lines that are not signal definitions\<close>

lemma scanLoop_v32_append:
  "scanLoop_v32 M cfg (xs @ ys) g = scanLoop_v32 M cfg ys (scanLoop_v32 M cfg xs g)"
  by (induction xs arbitrary: g) simp_all

lemma scanLoop_v22_append:
  "scanLoop_v22 cfg (xs @ ys) g = scanLoop_v22 cfg ys (scanLoop_v22 cfg xs g)"
  by (induction xs arbitrary: g) simp_all

text \<open>
  Claim C9. A line that, once trimmed, does not start with \<open>SIG=\<close> leaves the globals as
  they are, and a file with such a line gives the same error and the same globals as the
  file without it; in both versions. The loop body has no error path of its own.
\<close>

theorem other_lines_skipped:
  assumes "\<not> HasPrefix (TrimSpace text) ''SIG=''"
  shows "scanLine_v32 M cfg text g = g
       \<and> scanLine_v22 cfg' text g = g
       \<and> processSigFile_v32 M cfg (Inr \<lparr>Lines = before @ text # after, ScanErr = e\<rparr>) g0 =
         processSigFile_v32 M cfg (Inr \<lparr>Lines = before @ after, ScanErr = e\<rparr>) g0
       \<and> processSigFile_v22 cfg' (Inr \<lparr>Lines = before @ text # after, ScanErr = e\<rparr>) g0 =
         processSigFile_v22 cfg' (Inr \<lparr>Lines = before @ after, ScanErr = e\<rparr>) g0"
proof -
  have a: "\<And>h. scanLine_v32 M cfg text h = h"
    using assms by (simp add: scanLine_v32_def)
  have b: "\<And>h. scanLine_v22 cfg' text h = h"
    using assms by (simp add: scanLine_v22_def)
  show ?thesis
    by (simp add: a b processSigFile_v32_def processSigFile_v22_def
          scanLoop_v32_append scanLoop_v22_append)
qed

theorem other_lines_skipped_witness:
  "\<not> HasPrefix (TrimSpace ''NOTES=random text'') ''SIG=''
   \<and> scanLine_v32 sampleMatchString sampleConfig_v32 ''NOTES=random text'' staleGlobals = staleGlobals
   \<and> scanLine_v22 sampleConfig_v22 ''NOTES=random text'' staleGlobals = staleGlobals"
proof -
  have h: "\<not> HasPrefix (TrimSpace ''NOTES=random text'') ''SIG=''"
    by code_simp
  show ?thesis
    using h other_lines_skipped [OF h, of sampleMatchString sampleConfig_v32 staleGlobals
        sampleConfig_v22 "[]" "[]" None staleGlobals]
    by simp
qed

section \<open>Explicit output tags\<close>

lemma PUMP2_line:
  "TrimSpace ''SIG=@GV.PUMP2 TYPE=AO'' = ''SIG=@GV.PUMP2 TYPE=AO''"
  "HasPrefix ''SIG=@GV.PUMP2 TYPE=AO'' ''SIG=''"
  "FindStringSubmatch ''SIG=@GV.PUMP2 TYPE=AO'' = Some (''PUMP2'', ''AO'')"
  by code_simp+

text \<open>
  Claim C4. A point whose type tag is exactly \<open>AO\<close> (\<open>DO\<close>) is appended to the output list
  of the analog (digital) family and the spare of the input list is appended to that
  list, whatever the matcher and the patterns of the configuration: the result does not
  mention them. Version 3.2 annotates the spare with the name, version 2.2 does not. The
  same holds of the line \<open>SIG=@GV.PUMP2 TYPE=AO\<close>.
\<close>

theorem explicit_output_tag:
  "classify_v32 M cfg n ''AO'' g =
     g\<lparr>ListAO := ListAO g @ [''@GV.'' @ n],
       ListAI := ListAI g @ [Sprintf_spare (AI (Spares (App cfg))) n]\<rparr>
   \<and> classify_v32 M cfg n ''DO'' g =
     g\<lparr>ListDO := ListDO g @ [''@GV.'' @ n],
       ListDI := ListDI g @ [Sprintf_spare (DI (Spares (App cfg))) n]\<rparr>
   \<and> classify_v22 cfg' n ''AO'' g =
     g\<lparr>ListAO := ListAO g @ [''@GV.'' @ n], ListAI := ListAI g @ [AI (Spares (App cfg'))]\<rparr>
   \<and> classify_v22 cfg' n ''DO'' g =
     g\<lparr>ListDO := ListDO g @ [''@GV.'' @ n], ListDI := ListDI g @ [DI (Spares (App cfg'))]\<rparr>
   \<and> scanLine_v32 M cfg ''SIG=@GV.PUMP2 TYPE=AO'' g =
     g\<lparr>ListAO := ListAO g @ [''@GV.PUMP2''],
       ListAI := ListAI g @ [Sprintf_spare (AI (Spares (App cfg))) ''PUMP2'']\<rparr>
   \<and> scanLine_v22 cfg' ''SIG=@GV.PUMP2 TYPE=AO'' g =
     g\<lparr>ListAO := ListAO g @ [''@GV.PUMP2''], ListAI := ListAI g @ [AI (Spares (App cfg'))]\<rparr>"
proof -
  have a: "\<And>m. classify_v32 M cfg m ''AO'' g =
     g\<lparr>ListAO := ListAO g @ [''@GV.'' @ m],
       ListAI := ListAI g @ [Sprintf_spare (AI (Spares (App cfg))) m]\<rparr>"
    by (simp add: classify_v32_def HasPrefix_def Let_def)
  have b: "classify_v32 M cfg n ''DO'' g =
     g\<lparr>ListDO := ListDO g @ [''@GV.'' @ n],
       ListDI := ListDI g @ [Sprintf_spare (DI (Spares (App cfg))) n]\<rparr>"
    by (simp add: classify_v32_def HasPrefix_def Let_def)
  have c: "\<And>m. classify_v22 cfg' m ''AO'' g =
     g\<lparr>ListAO := ListAO g @ [''@GV.'' @ m], ListAI := ListAI g @ [AI (Spares (App cfg'))]\<rparr>"
    by (simp add: classify_v22_def Let_def)
  have d: "classify_v22 cfg' n ''DO'' g =
     g\<lparr>ListDO := ListDO g @ [''@GV.'' @ n], ListDI := ListDI g @ [DI (Spares (App cfg'))]\<rparr>"
    by (simp add: classify_v22_def Let_def)
  have e: "scanLine_v32 M cfg ''SIG=@GV.PUMP2 TYPE=AO'' g = classify_v32 M cfg ''PUMP2'' ''AO'' g"
    by (simp only: scanLine_v32_def PUMP2_line Let_def) simp
  have f: "scanLine_v22 cfg' ''SIG=@GV.PUMP2 TYPE=AO'' g = classify_v22 cfg' ''PUMP2'' ''AO'' g"
    by (simp only: scanLine_v22_def PUMP2_line Let_def) simp
  show ?thesis
    using a [of n] b c [of n] d a [of "''PUMP2''"] c [of "''PUMP2''"]
    by (simp only: e f) simp
qed

theorem explicit_output_tag_witness:
  "ListAO (scanLine_v32 sampleMatchString sampleConfig_v32 ''SIG=@GV.PUMP2 TYPE=AO'' staleGlobals) =
     [''stale'', ''@GV.PUMP2'']
   \<and> ListAI (scanLine_v32 sampleMatchString sampleConfig_v32 ''SIG=@GV.PUMP2 TYPE=AO'' staleGlobals) =
     [''SPARE_AI(PUMP2)'']
   \<and> ListAO (scanLine_v22 sampleConfig_v22 ''SIG=@GV.PUMP2 TYPE=AO'' staleGlobals) =
     [''stale'', ''@GV.PUMP2'']
   \<and> ListAI (scanLine_v22 sampleConfig_v22 ''SIG=@GV.PUMP2 TYPE=AO'' staleGlobals) =
     [''SPARE_AI'']"
  using explicit_output_tag [of sampleMatchString sampleConfig_v32 "''PUMP2''" staleGlobals
      sampleConfig_v22]
  by (simp add: staleGlobals_def sampleConfig_v32_def sampleConfig_v22_def sampleSpares_def
        Sprintf_spare_def)

section \<open>The pattern lists\<close>

lemma isMatchRegex_iff:
  "isMatchRegex M name ps = (\<exists>p \<in> set ps. M p name = Inr True)"
  by (induction ps) (auto simp: Let_def split: sum.splits)

text \<open>
  Claim C8. Whether some pattern of a list matches a name does not depend on the order of
  the list: two lists with the same patterns, each as often, give the same decision,
  whatever the matcher.
\<close>

theorem pattern_order_irrelevant:
  assumes "mset ps = mset qs"
  shows "isMatchRegex M name ps = isMatchRegex M name qs"
proof -
  have "set ps = set qs"
    using assms by (rule mset_eq_setD)
  then show ?thesis
    by (simp add: isMatchRegex_iff)
qed

theorem pattern_order_irrelevant_witness:
  "mset [''('', ''_SP'', ''H_H''] = mset [''H_H'', ''('', ''_SP'']
   \<and> isMatchRegex sampleMatchString ''T1_SP'' [''('', ''_SP'', ''H_H''] =
     isMatchRegex sampleMatchString ''T1_SP'' [''H_H'', ''('', ''_SP'']
   \<and> isMatchRegex sampleMatchString ''T1_SP'' [''H_H'', ''('', ''_SP'']"
proof -
  have h: "mset [''('', ''_SP'', ''H_H''] = mset [''H_H'', ''('', ''_SP'']"
    by (simp add: add.commute)
  have t: "isMatchRegex sampleMatchString ''T1_SP'' [''H_H'', ''('', ''_SP'']"
    by code_simp
  show ?thesis
    using h t pattern_order_irrelevant [OF h, of sampleMatchString "''T1_SP''"]
    by simp
qed

text \<open>
  Claim C5, as the code has it. A pattern that does not compile is dropped from the
  decision as if it were not in the list, so a later pattern that matches still makes the
  point an output; the call returns the scanner's error, whatever the patterns; and nothing
  is handed to the logger: \<open>isMatchRegex\<close> discards the compile error.
\<close>

theorem invalid_pattern_skipped:
  assumes "M p name = Inl err"
  shows "isMatchRegex M name (ps @ p # qs) = isMatchRegex M name (ps @ qs)
       \<and> fst (processSigFile_v32 M cfg (Inr file) g) = ScanErr file
       \<and> LogOutput (snd (processSigFile_v32 M cfg (Inr file) g)) = LogOutput g"
proof -
  have "isMatchRegex M name (ps @ p # qs) = isMatchRegex M name (ps @ qs)"
    using assms by (auto simp: isMatchRegex_iff)
  then show ?thesis
    by (simp add: processSigFile_v32_opened)
qed

theorem invalid_pattern_skipped_witness:
  "sampleMatchString ''('' ''T1_SP'' = Inl (Error ''error parsing regexp: missing closing )'')
   \<and> isMatchRegex sampleMatchString ''T1_SP'' ([] @ ''('' # [''_SP'']) =
     isMatchRegex sampleMatchString ''T1_SP'' ([] @ [''_SP''])
   \<and> isMatchRegex sampleMatchString ''T1_SP'' [''_SP'']
   \<and> fst (processSigFile_v32 sampleMatchString sampleConfig_v32 (Inr sampleFile) staleGlobals) =
     ScanErr sampleFile
   \<and> LogOutput (snd (processSigFile_v32 sampleMatchString sampleConfig_v32 (Inr sampleFile) staleGlobals)) =
     LogOutput staleGlobals"
proof -
  have h: "sampleMatchString ''('' ''T1_SP'' = Inl (Error ''error parsing regexp: missing closing )'')"
    by (simp add: sampleMatchString_def)
  have t: "isMatchRegex sampleMatchString ''T1_SP'' [''_SP'']"
    by code_simp
  show ?thesis
    using h t invalid_pattern_skipped
      [of sampleMatchString "''(''" "''T1_SP''" "Error ''error parsing regexp: missing closing )''"
         "[]" "[''_SP'']" sampleConfig_v32 sampleFile staleGlobals]
    by simp
qed

text \<open>
  The claim as stated fails: the sample configuration has the analog pattern \<^verbatim>\<open>(\<close>, which
  does not compile, and after the run the log is as empty as before it.
\<close>

theorem invalid_pattern_not_logged:
  "AnalogRegex (Classification (App sampleConfig_v32)) = [''('', ''_SP'']
   \<and> sampleMatchString ''('' ''T1_SP'' = Inl (Error ''error parsing regexp: missing closing )'')
   \<and> LogOutput staleGlobals = []
   \<and> LogOutput (snd (processSigFile_v32 sampleMatchString sampleConfig_v32 (Inr sampleFile) staleGlobals)) = []"
  by code_simp

section \<open>What a matching line appends\<close>

lemma spare_ne_reference: "Sprintf_spare s n \<noteq> ''@GV.'' @ n"
proof
  assume h: "Sprintf_spare s n = ''@GV.'' @ n"
  then have "length (Sprintf_spare s n) = length (''@GV.'' @ n)"
    by simp
  then have "length s = 2"
    by (simp add: Sprintf_spare_def)
  then obtain a b where "s = [a, b]"
    by (auto simp: numeral_2_eq_2 length_Suc_conv)
  with h show False
    by (simp add: Sprintf_spare_def)
qed

lemma scanLine_v32_matched:
  "HasPrefix (TrimSpace text) ''SIG='' \<Longrightarrow> FindStringSubmatch (TrimSpace text) = Some (n, t)
   \<Longrightarrow> scanLine_v32 M cfg text g = classify_v32 M cfg n t g"
  by (simp add: scanLine_v32_def)

lemma scanLine_v22_matched:
  "HasPrefix (TrimSpace text) ''SIG='' \<Longrightarrow> FindStringSubmatch (TrimSpace text) = Some (n, t)
   \<Longrightarrow> scanLine_v22 cfg text g = classify_v22 cfg n t g"
  by (simp add: scanLine_v22_def)

lemma appendsOne_snoc [simp]: "appendsOne xs (xs @ [e])"
  by (simp add: appendsOne_def)

lemma classify_v32_analog:
  assumes "analogTag_v32 t"
  shows "classify_v32 M cfg n t g =
           (if t = ''AO'' \<or> isMatchRegex M n (AnalogRegex (Classification (App cfg)))
            then g\<lparr>ListAO := ListAO g @ [''@GV.'' @ n],
                   ListAI := ListAI g @ [Sprintf_spare (AI (Spares (App cfg))) n]\<rparr>
            else g\<lparr>ListAI := ListAI g @ [''@GV.'' @ n],
                   ListAO := ListAO g @ [Sprintf_spare (AO (Spares (App cfg))) n]\<rparr>)"
proof (cases "t = ''AO''")
  case True
  then show ?thesis
    by (simp add: classify_v32_def Let_def HasPrefix_def)
next
  case False
  with assms have "Contains t ''AA'' \<or> Contains t ''REAL''"
    by (simp add: analogTag_v32_def)
  with False show ?thesis
    by (simp add: classify_v32_def Let_def)
qed

lemma classify_v32_digital:
  assumes "digitalTag_v32 t"
  shows "classify_v32 M cfg n t g =
           (if t = ''DO'' \<or> isMatchRegex M n (DigitalRegex (Classification (App cfg)))
            then g\<lparr>ListDO := ListDO g @ [''@GV.'' @ n],
                   ListDI := ListDI g @ [Sprintf_spare (DI (Spares (App cfg))) n]\<rparr>
            else g\<lparr>ListDI := ListDI g @ [''@GV.'' @ n],
                   ListDO := ListDO g @ [Sprintf_spare (DO (Spares (App cfg))) n]\<rparr>)"
proof (cases "t = ''DO''")
  case True
  then show ?thesis
    by (simp add: classify_v32_def Let_def HasPrefix_def)
next
  case False
  with assms have "(Contains t ''LA'' \<or> Contains t ''BOOL'') \<and> \<not> Contains t ''AA'' \<and> \<not> Contains t ''REAL''"
    by (simp add: digitalTag_v32_def)
  with False show ?thesis
    by (simp add: classify_v32_def Let_def)
qed

lemma classify_v32_other:
  assumes "\<not> analogTag_v32 t" and "\<not> digitalTag_v32 t"
  shows "classify_v32 M cfg n t g = g"
  using assms by (simp add: classify_v32_def Let_def analogTag_v32_def digitalTag_v32_def)

lemma classify_v22_other:
  assumes "\<not> analogTag_v22 t" and "\<not> digitalTag_v22 t"
  shows "classify_v22 cfg n t g = g"
  using assms by (simp add: classify_v22_def Let_def analogTag_v22_def digitalTag_v22_def)

lemma classify_v22_analog:
  assumes "analogTag_v22 t"
  shows "classify_v22 cfg n t g =
           (if t = ''AO''
            then g\<lparr>ListAO := ListAO g @ [''@GV.'' @ n], ListAI := ListAI g @ [AI (Spares (App cfg))]\<rparr>
            else if isOutput_v22 n
            then g\<lparr>ListAO := ListAO g @ [''@GV.'' @ n], ListAI := ListAI g @ [''@GV.'' @ n]\<rparr>
            else g\<lparr>ListAI := ListAI g @ [''@GV.'' @ n], ListAO := ListAO g @ [AO (Spares (App cfg))]\<rparr>)"
proof (cases "t = ''AO''")
  case True
  then show ?thesis
    by (simp add: classify_v22_def Let_def)
next
  case False
  with assms have "t = ''AAR'' \<or> t = ''AA''"
    by (simp add: analogTag_v22_def)
  with False show ?thesis
    by (simp add: classify_v22_def Let_def isOutput_v22_def)
qed

lemma classify_v22_digital:
  assumes "digitalTag_v22 t"
  shows "classify_v22 cfg n t g =
           (if t = ''DO'' \<or> isCmd_v22 n
            then g\<lparr>ListDO := ListDO g @ [''@GV.'' @ n], ListDI := ListDI g @ [DI (Spares (App cfg))]\<rparr>
            else g\<lparr>ListDI := ListDI g @ [''@GV.'' @ n], ListDO := ListDO g @ [DO (Spares (App cfg))]\<rparr>)"
proof (cases "t = ''DO''")
  case True
  then show ?thesis
    by (simp add: classify_v22_def Let_def)
next
  case False
  with assms have "t = ''LA''"
    by (simp add: digitalTag_v22_def)
  then show ?thesis
    by (simp add: classify_v22_def Let_def isCmd_v22_def)
qed

text \<open>
  Claim C2, as the code has it. Take a line that starts with \<open>SIG=\<close> once trimmed and
  that the extraction pattern matches with name \<open>n\<close> and type tag \<open>t\<close>. When the tag is
  one the dispatch knows, the line appends exactly one entry to each list of one family
  and nothing to the other family. In version 3.2 one of the two entries is the reference
  \<open>@GV.n\<close> and the other is the spare text of its list annotated with the name, and never
  both are the reference. In version 2.2 one entry is the reference and the other is the
  bare spare text of its list, or the reference again for an \<open>AA\<close> or \<open>AAR\<close> point that the
  substring heuristic makes an output. When the tag is any other, the line appends
  nothing. The theorem gives the globals after the line in each case.
\<close>

theorem matching_line_appends_one_pair:
  assumes "HasPrefix (TrimSpace text) ''SIG=''"
    and "FindStringSubmatch (TrimSpace text) = Some (n, t)"
  shows "(analogTag_v32 t \<longrightarrow>
            scanLine_v32 M cfg text g =
              (if t = ''AO'' \<or> isMatchRegex M n (AnalogRegex (Classification (App cfg)))
               then g\<lparr>ListAO := ListAO g @ [''@GV.'' @ n],
                      ListAI := ListAI g @ [Sprintf_spare (AI (Spares (App cfg))) n]\<rparr>
               else g\<lparr>ListAI := ListAI g @ [''@GV.'' @ n],
                      ListAO := ListAO g @ [Sprintf_spare (AO (Spares (App cfg))) n]\<rparr>)
          \<and> appendsOne (ListAO g) (ListAO (scanLine_v32 M cfg text g))
          \<and> appendsOne (ListAI g) (ListAI (scanLine_v32 M cfg text g))
          \<and> ListDO (scanLine_v32 M cfg text g) = ListDO g
          \<and> ListDI (scanLine_v32 M cfg text g) = ListDI g
          \<and> ((ListAO (scanLine_v32 M cfg text g) = ListAO g @ [''@GV.'' @ n]) \<noteq>
             (ListAI (scanLine_v32 M cfg text g) = ListAI g @ [''@GV.'' @ n])))
       \<and> (digitalTag_v32 t \<longrightarrow>
            scanLine_v32 M cfg text g =
              (if t = ''DO'' \<or> isMatchRegex M n (DigitalRegex (Classification (App cfg)))
               then g\<lparr>ListDO := ListDO g @ [''@GV.'' @ n],
                      ListDI := ListDI g @ [Sprintf_spare (DI (Spares (App cfg))) n]\<rparr>
               else g\<lparr>ListDI := ListDI g @ [''@GV.'' @ n],
                      ListDO := ListDO g @ [Sprintf_spare (DO (Spares (App cfg))) n]\<rparr>)
          \<and> appendsOne (ListDO g) (ListDO (scanLine_v32 M cfg text g))
          \<and> appendsOne (ListDI g) (ListDI (scanLine_v32 M cfg text g))
          \<and> ListAO (scanLine_v32 M cfg text g) = ListAO g
          \<and> ListAI (scanLine_v32 M cfg text g) = ListAI g
          \<and> ((ListDO (scanLine_v32 M cfg text g) = ListDO g @ [''@GV.'' @ n]) \<noteq>
             (ListDI (scanLine_v32 M cfg text g) = ListDI g @ [''@GV.'' @ n])))
       \<and> (\<not> analogTag_v32 t \<and> \<not> digitalTag_v32 t \<longrightarrow> scanLine_v32 M cfg text g = g)
       \<and> (analogTag_v22 t \<longrightarrow>
            scanLine_v22 cfg' text g =
              (if t = ''AO''
               then g\<lparr>ListAO := ListAO g @ [''@GV.'' @ n],
                      ListAI := ListAI g @ [AI (Spares (App cfg'))]\<rparr>
               else if isOutput_v22 n
               then g\<lparr>ListAO := ListAO g @ [''@GV.'' @ n], ListAI := ListAI g @ [''@GV.'' @ n]\<rparr>
               else g\<lparr>ListAI := ListAI g @ [''@GV.'' @ n],
                      ListAO := ListAO g @ [AO (Spares (App cfg'))]\<rparr>)
          \<and> appendsOne (ListAO g) (ListAO (scanLine_v22 cfg' text g))
          \<and> appendsOne (ListAI g) (ListAI (scanLine_v22 cfg' text g))
          \<and> ListDO (scanLine_v22 cfg' text g) = ListDO g
          \<and> ListDI (scanLine_v22 cfg' text g) = ListDI g
          \<and> (ListAO (scanLine_v22 cfg' text g) = ListAO g @ [''@GV.'' @ n] \<or>
             ListAI (scanLine_v22 cfg' text g) = ListAI g @ [''@GV.'' @ n]))
       \<and> (digitalTag_v22 t \<longrightarrow>
            scanLine_v22 cfg' text g =
              (if t = ''DO'' \<or> isCmd_v22 n
               then g\<lparr>ListDO := ListDO g @ [''@GV.'' @ n],
                      ListDI := ListDI g @ [DI (Spares (App cfg'))]\<rparr>
               else g\<lparr>ListDI := ListDI g @ [''@GV.'' @ n],
                      ListDO := ListDO g @ [DO (Spares (App cfg'))]\<rparr>)
          \<and> appendsOne (ListDO g) (ListDO (scanLine_v22 cfg' text g))
          \<and> appendsOne (ListDI g) (ListDI (scanLine_v22 cfg' text g))
          \<and> ListAO (scanLine_v22 cfg' text g) = ListAO g
          \<and> ListAI (scanLine_v22 cfg' text g) = ListAI g
          \<and> (ListDO (scanLine_v22 cfg' text g) = ListDO g @ [''@GV.'' @ n] \<or>
             ListDI (scanLine_v22 cfg' text g) = ListDI g @ [''@GV.'' @ n]))
       \<and> (\<not> analogTag_v22 t \<and> \<not> digitalTag_v22 t \<longrightarrow> scanLine_v22 cfg' text g = g)"
proof -
  have l32: "scanLine_v32 M cfg text g = classify_v32 M cfg n t g"
    using assms by (rule scanLine_v32_matched)
  have l22: "scanLine_v22 cfg' text g = classify_v22 cfg' n t g"
    using assms by (rule scanLine_v22_matched)
  have a32: "analogTag_v32 t \<longrightarrow>
            classify_v32 M cfg n t g =
              (if t = ''AO'' \<or> isMatchRegex M n (AnalogRegex (Classification (App cfg)))
               then g\<lparr>ListAO := ListAO g @ [''@GV.'' @ n],
                      ListAI := ListAI g @ [Sprintf_spare (AI (Spares (App cfg))) n]\<rparr>
               else g\<lparr>ListAI := ListAI g @ [''@GV.'' @ n],
                      ListAO := ListAO g @ [Sprintf_spare (AO (Spares (App cfg))) n]\<rparr>)
          \<and> appendsOne (ListAO g) (ListAO (classify_v32 M cfg n t g))
          \<and> appendsOne (ListAI g) (ListAI (classify_v32 M cfg n t g))
          \<and> ListDO (classify_v32 M cfg n t g) = ListDO g
          \<and> ListDI (classify_v32 M cfg n t g) = ListDI g
          \<and> ((ListAO (classify_v32 M cfg n t g) = ListAO g @ [''@GV.'' @ n]) \<noteq>
             (ListAI (classify_v32 M cfg n t g) = ListAI g @ [''@GV.'' @ n]))"
    using spare_ne_reference [of _ n] by (simp add: classify_v32_analog)
  have d32: "digitalTag_v32 t \<longrightarrow>
            classify_v32 M cfg n t g =
              (if t = ''DO'' \<or> isMatchRegex M n (DigitalRegex (Classification (App cfg)))
               then g\<lparr>ListDO := ListDO g @ [''@GV.'' @ n],
                      ListDI := ListDI g @ [Sprintf_spare (DI (Spares (App cfg))) n]\<rparr>
               else g\<lparr>ListDI := ListDI g @ [''@GV.'' @ n],
                      ListDO := ListDO g @ [Sprintf_spare (DO (Spares (App cfg))) n]\<rparr>)
          \<and> appendsOne (ListDO g) (ListDO (classify_v32 M cfg n t g))
          \<and> appendsOne (ListDI g) (ListDI (classify_v32 M cfg n t g))
          \<and> ListAO (classify_v32 M cfg n t g) = ListAO g
          \<and> ListAI (classify_v32 M cfg n t g) = ListAI g
          \<and> ((ListDO (classify_v32 M cfg n t g) = ListDO g @ [''@GV.'' @ n]) \<noteq>
             (ListDI (classify_v32 M cfg n t g) = ListDI g @ [''@GV.'' @ n]))"
    using spare_ne_reference [of _ n] by (simp add: classify_v32_digital)
  have o32: "\<not> analogTag_v32 t \<and> \<not> digitalTag_v32 t \<longrightarrow> classify_v32 M cfg n t g = g"
    by (simp add: classify_v32_other)
  have a22: "analogTag_v22 t \<longrightarrow>
            classify_v22 cfg' n t g =
              (if t = ''AO''
               then g\<lparr>ListAO := ListAO g @ [''@GV.'' @ n],
                      ListAI := ListAI g @ [AI (Spares (App cfg'))]\<rparr>
               else if isOutput_v22 n
               then g\<lparr>ListAO := ListAO g @ [''@GV.'' @ n], ListAI := ListAI g @ [''@GV.'' @ n]\<rparr>
               else g\<lparr>ListAI := ListAI g @ [''@GV.'' @ n],
                      ListAO := ListAO g @ [AO (Spares (App cfg'))]\<rparr>)
          \<and> appendsOne (ListAO g) (ListAO (classify_v22 cfg' n t g))
          \<and> appendsOne (ListAI g) (ListAI (classify_v22 cfg' n t g))
          \<and> ListDO (classify_v22 cfg' n t g) = ListDO g
          \<and> ListDI (classify_v22 cfg' n t g) = ListDI g
          \<and> (ListAO (classify_v22 cfg' n t g) = ListAO g @ [''@GV.'' @ n] \<or>
             ListAI (classify_v22 cfg' n t g) = ListAI g @ [''@GV.'' @ n])"
    by (simp add: classify_v22_analog)
  have d22: "digitalTag_v22 t \<longrightarrow>
            classify_v22 cfg' n t g =
              (if t = ''DO'' \<or> isCmd_v22 n
               then g\<lparr>ListDO := ListDO g @ [''@GV.'' @ n],
                      ListDI := ListDI g @ [DI (Spares (App cfg'))]\<rparr>
               else g\<lparr>ListDI := ListDI g @ [''@GV.'' @ n],
                      ListDO := ListDO g @ [DO (Spares (App cfg'))]\<rparr>)
          \<and> appendsOne (ListDO g) (ListDO (classify_v22 cfg' n t g))
          \<and> appendsOne (ListDI g) (ListDI (classify_v22 cfg' n t g))
          \<and> ListAO (classify_v22 cfg' n t g) = ListAO g
          \<and> ListAI (classify_v22 cfg' n t g) = ListAI g
          \<and> (ListDO (classify_v22 cfg' n t g) = ListDO g @ [''@GV.'' @ n] \<or>
             ListDI (classify_v22 cfg' n t g) = ListDI g @ [''@GV.'' @ n])"
    by (simp add: classify_v22_digital)
  have o22: "\<not> analogTag_v22 t \<and> \<not> digitalTag_v22 t \<longrightarrow> classify_v22 cfg' n t g = g"
    by (simp add: classify_v22_other)
  show ?thesis
    unfolding l32 l22 using a32 d32 o32 a22 d22 o22 by blast
qed

theorem matching_line_appends_one_pair_witness:
  "HasPrefix (TrimSpace ''SIG=@GV.VALVE1_CMD TYPE=LA'') ''SIG=''
   \<and> FindStringSubmatch (TrimSpace ''SIG=@GV.VALVE1_CMD TYPE=LA'') = Some (''VALVE1_CMD'', ''LA'')
   \<and> digitalTag_v32 ''LA'' \<and> digitalTag_v22 ''LA''
   \<and> isMatchRegex sampleMatchString ''VALVE1_CMD'' (DigitalRegex (Classification (App sampleConfig_v32)))
   \<and> isCmd_v22 ''VALVE1_CMD''
   \<and> scanLine_v32 sampleMatchString sampleConfig_v32 ''SIG=@GV.VALVE1_CMD TYPE=LA'' staleGlobals =
       staleGlobals\<lparr>ListDO := [''@GV.VALVE1_CMD''],
                    ListDI := [''stale'', ''stale'', ''SPARE_DI(VALVE1_CMD)'']\<rparr>
   \<and> appendsOne (ListDO staleGlobals)
       (ListDO (scanLine_v32 sampleMatchString sampleConfig_v32 ''SIG=@GV.VALVE1_CMD TYPE=LA'' staleGlobals))
   \<and> appendsOne (ListDI staleGlobals)
       (ListDI (scanLine_v32 sampleMatchString sampleConfig_v32 ''SIG=@GV.VALVE1_CMD TYPE=LA'' staleGlobals))
   \<and> ListAO (scanLine_v32 sampleMatchString sampleConfig_v32 ''SIG=@GV.VALVE1_CMD TYPE=LA'' staleGlobals) =
       ListAO staleGlobals
   \<and> scanLine_v22 sampleConfig_v22 ''SIG=@GV.VALVE1_CMD TYPE=LA'' staleGlobals =
       staleGlobals\<lparr>ListDO := [''@GV.VALVE1_CMD''], ListDI := [''stale'', ''stale'', ''SPARE_DI'']\<rparr>
   \<and> appendsOne (ListDO staleGlobals)
       (ListDO (scanLine_v22 sampleConfig_v22 ''SIG=@GV.VALVE1_CMD TYPE=LA'' staleGlobals))
   \<and> appendsOne (ListDI staleGlobals)
       (ListDI (scanLine_v22 sampleConfig_v22 ''SIG=@GV.VALVE1_CMD TYPE=LA'' staleGlobals))"
proof -
  have h1: "HasPrefix (TrimSpace ''SIG=@GV.VALVE1_CMD TYPE=LA'') ''SIG=''"
    by code_simp
  have h2: "FindStringSubmatch (TrimSpace ''SIG=@GV.VALVE1_CMD TYPE=LA'') = Some (''VALVE1_CMD'', ''LA'')"
    by code_simp
  have t1: "digitalTag_v32 ''LA''"
    by code_simp
  have t2: "digitalTag_v22 ''LA''"
    by code_simp
  have m1: "isMatchRegex sampleMatchString ''VALVE1_CMD''
              (DigitalRegex (Classification (App sampleConfig_v32)))"
    by code_simp
  have m2: "isCmd_v22 ''VALVE1_CMD''"
    by code_simp
  have s1: "Sprintf_spare (DI (Spares (App sampleConfig_v32))) ''VALVE1_CMD'' = ''SPARE_DI(VALVE1_CMD)''"
    by code_simp
  have s2: "DI (Spares (App sampleConfig_v22)) = ''SPARE_DI''"
    by code_simp
  have g: "ListDO staleGlobals = []" "ListDI staleGlobals = [''stale'', ''stale'']"
    by (simp_all add: staleGlobals_def)
  note T = matching_line_appends_one_pair [OF h1 h2, where g = staleGlobals
      and M = sampleMatchString and cfg = sampleConfig_v32 and cfg' = sampleConfig_v22]
  note B = T [THEN conjunct2, THEN conjunct1, THEN mp, OF t1]
  note E = T [THEN conjunct2, THEN conjunct2, THEN conjunct2, THEN conjunct2, THEN conjunct1,
      THEN mp, OF t2]
  have e1: "scanLine_v32 sampleMatchString sampleConfig_v32 ''SIG=@GV.VALVE1_CMD TYPE=LA'' staleGlobals =
       staleGlobals\<lparr>ListDO := [''@GV.VALVE1_CMD''],
                    ListDI := [''stale'', ''stale'', ''SPARE_DI(VALVE1_CMD)'']\<rparr>"
    using B [THEN conjunct1] m1 by (simp add: s1 g)
  have e2: "scanLine_v22 sampleConfig_v22 ''SIG=@GV.VALVE1_CMD TYPE=LA'' staleGlobals =
       staleGlobals\<lparr>ListDO := [''@GV.VALVE1_CMD''], ListDI := [''stale'', ''stale'', ''SPARE_DI'']\<rparr>"
    using E [THEN conjunct1] m2 by (simp add: s2 g)
  have c1: "appendsOne (ListDO staleGlobals)
       (ListDO (scanLine_v32 sampleMatchString sampleConfig_v32 ''SIG=@GV.VALVE1_CMD TYPE=LA'' staleGlobals))
     \<and> appendsOne (ListDI staleGlobals)
       (ListDI (scanLine_v32 sampleMatchString sampleConfig_v32 ''SIG=@GV.VALVE1_CMD TYPE=LA'' staleGlobals))
     \<and> ListAO (scanLine_v32 sampleMatchString sampleConfig_v32 ''SIG=@GV.VALVE1_CMD TYPE=LA'' staleGlobals) =
       ListAO staleGlobals"
    using B [THEN conjunct2] by blast
  have c2: "appendsOne (ListDO staleGlobals)
       (ListDO (scanLine_v22 sampleConfig_v22 ''SIG=@GV.VALVE1_CMD TYPE=LA'' staleGlobals))
     \<and> appendsOne (ListDI staleGlobals)
       (ListDI (scanLine_v22 sampleConfig_v22 ''SIG=@GV.VALVE1_CMD TYPE=LA'' staleGlobals))"
    using E [THEN conjunct2] by blast
  show ?thesis
    using h1 h2 t1 t2 m1 m2 e1 e2 c1 c2 by blast
qed

text \<open>
  The claim as stated fails: the line \<open>SIG=@GV.Q TYPE=ZZ\<close> starts with \<open>SIG=\<close> and matches
  the extraction pattern, and it appends nothing, in either version.
\<close>

theorem unknown_tag_appends_nothing:
  "HasPrefix (TrimSpace ''SIG=@GV.Q TYPE=ZZ'') ''SIG=''
   \<and> FindStringSubmatch (TrimSpace ''SIG=@GV.Q TYPE=ZZ'') = Some (''Q'', ''ZZ'')
   \<and> scanLine_v32 sampleMatchString sampleConfig_v32 ''SIG=@GV.Q TYPE=ZZ'' staleGlobals = staleGlobals
   \<and> scanLine_v22 sampleConfig_v22 ''SIG=@GV.Q TYPE=ZZ'' staleGlobals = staleGlobals"
  by code_simp

text \<open>
  Claim C3, as the code has it. In version 3.2 a classified point appends the reference
  \<open>@GV.n\<close> to the list of the chosen direction (output when the tag is \<open>AO\<close> or \<open>DO\<close> or a
  pattern of the family matches the name, input otherwise) and the spare text of the
  opposite list, annotated with the name, to the opposite list; an annotated spare is
  never the reference. In version 2.2 the opposite list receives the bare spare text of
  that list, with one exception: a point of type \<open>AA\<close> or \<open>AAR\<close> that the substring
  heuristic makes an output is appended as the reference to \<open>ListAO\<close> and to \<open>ListAI\<close>.
  The theorem gives the globals after the classification in each case.
\<close>

theorem reference_and_spare:
  "(analogTag_v32 t \<longrightarrow>
      classify_v32 M cfg n t g =
        (if t = ''AO'' \<or> isMatchRegex M n (AnalogRegex (Classification (App cfg)))
         then g\<lparr>ListAO := ListAO g @ [''@GV.'' @ n],
                ListAI := ListAI g @ [Sprintf_spare (AI (Spares (App cfg))) n]\<rparr>
         else g\<lparr>ListAI := ListAI g @ [''@GV.'' @ n],
                ListAO := ListAO g @ [Sprintf_spare (AO (Spares (App cfg))) n]\<rparr>)
      \<and> (ListAO (classify_v32 M cfg n t g) = ListAO g @ [''@GV.'' @ n]
          \<and> ListAI (classify_v32 M cfg n t g) = ListAI g @ [Sprintf_spare (AI (Spares (App cfg))) n]
          \<and> ListAI (classify_v32 M cfg n t g) \<noteq> ListAI g @ [''@GV.'' @ n]
        \<or> ListAI (classify_v32 M cfg n t g) = ListAI g @ [''@GV.'' @ n]
          \<and> ListAO (classify_v32 M cfg n t g) = ListAO g @ [Sprintf_spare (AO (Spares (App cfg))) n]
          \<and> ListAO (classify_v32 M cfg n t g) \<noteq> ListAO g @ [''@GV.'' @ n]))
   \<and> (digitalTag_v32 t \<longrightarrow>
      classify_v32 M cfg n t g =
        (if t = ''DO'' \<or> isMatchRegex M n (DigitalRegex (Classification (App cfg)))
         then g\<lparr>ListDO := ListDO g @ [''@GV.'' @ n],
                ListDI := ListDI g @ [Sprintf_spare (DI (Spares (App cfg))) n]\<rparr>
         else g\<lparr>ListDI := ListDI g @ [''@GV.'' @ n],
                ListDO := ListDO g @ [Sprintf_spare (DO (Spares (App cfg))) n]\<rparr>)
      \<and> (ListDO (classify_v32 M cfg n t g) = ListDO g @ [''@GV.'' @ n]
          \<and> ListDI (classify_v32 M cfg n t g) = ListDI g @ [Sprintf_spare (DI (Spares (App cfg))) n]
          \<and> ListDI (classify_v32 M cfg n t g) \<noteq> ListDI g @ [''@GV.'' @ n]
        \<or> ListDI (classify_v32 M cfg n t g) = ListDI g @ [''@GV.'' @ n]
          \<and> ListDO (classify_v32 M cfg n t g) = ListDO g @ [Sprintf_spare (DO (Spares (App cfg))) n]
          \<and> ListDO (classify_v32 M cfg n t g) \<noteq> ListDO g @ [''@GV.'' @ n]))
   \<and> Sprintf_spare s n \<noteq> ''@GV.'' @ n
   \<and> (analogTag_v22 t \<longrightarrow>
      classify_v22 cfg' n t g =
        (if t = ''AO''
         then g\<lparr>ListAO := ListAO g @ [''@GV.'' @ n], ListAI := ListAI g @ [AI (Spares (App cfg'))]\<rparr>
         else if isOutput_v22 n
         then g\<lparr>ListAO := ListAO g @ [''@GV.'' @ n], ListAI := ListAI g @ [''@GV.'' @ n]\<rparr>
         else g\<lparr>ListAI := ListAI g @ [''@GV.'' @ n], ListAO := ListAO g @ [AO (Spares (App cfg'))]\<rparr>))
   \<and> (digitalTag_v22 t \<longrightarrow>
      classify_v22 cfg' n t g =
        (if t = ''DO'' \<or> isCmd_v22 n
         then g\<lparr>ListDO := ListDO g @ [''@GV.'' @ n], ListDI := ListDI g @ [DI (Spares (App cfg'))]\<rparr>
         else g\<lparr>ListDI := ListDI g @ [''@GV.'' @ n], ListDO := ListDO g @ [DO (Spares (App cfg'))]\<rparr>))"
proof -
  have a32: "analogTag_v32 t \<longrightarrow>
      classify_v32 M cfg n t g =
        (if t = ''AO'' \<or> isMatchRegex M n (AnalogRegex (Classification (App cfg)))
         then g\<lparr>ListAO := ListAO g @ [''@GV.'' @ n],
                ListAI := ListAI g @ [Sprintf_spare (AI (Spares (App cfg))) n]\<rparr>
         else g\<lparr>ListAI := ListAI g @ [''@GV.'' @ n],
                ListAO := ListAO g @ [Sprintf_spare (AO (Spares (App cfg))) n]\<rparr>)
      \<and> (ListAO (classify_v32 M cfg n t g) = ListAO g @ [''@GV.'' @ n]
          \<and> ListAI (classify_v32 M cfg n t g) = ListAI g @ [Sprintf_spare (AI (Spares (App cfg))) n]
          \<and> ListAI (classify_v32 M cfg n t g) \<noteq> ListAI g @ [''@GV.'' @ n]
        \<or> ListAI (classify_v32 M cfg n t g) = ListAI g @ [''@GV.'' @ n]
          \<and> ListAO (classify_v32 M cfg n t g) = ListAO g @ [Sprintf_spare (AO (Spares (App cfg))) n]
          \<and> ListAO (classify_v32 M cfg n t g) \<noteq> ListAO g @ [''@GV.'' @ n])"
    using spare_ne_reference [of _ n] by (simp add: classify_v32_analog)
  have d32: "digitalTag_v32 t \<longrightarrow>
      classify_v32 M cfg n t g =
        (if t = ''DO'' \<or> isMatchRegex M n (DigitalRegex (Classification (App cfg)))
         then g\<lparr>ListDO := ListDO g @ [''@GV.'' @ n],
                ListDI := ListDI g @ [Sprintf_spare (DI (Spares (App cfg))) n]\<rparr>
         else g\<lparr>ListDI := ListDI g @ [''@GV.'' @ n],
                ListDO := ListDO g @ [Sprintf_spare (DO (Spares (App cfg))) n]\<rparr>)
      \<and> (ListDO (classify_v32 M cfg n t g) = ListDO g @ [''@GV.'' @ n]
          \<and> ListDI (classify_v32 M cfg n t g) = ListDI g @ [Sprintf_spare (DI (Spares (App cfg))) n]
          \<and> ListDI (classify_v32 M cfg n t g) \<noteq> ListDI g @ [''@GV.'' @ n]
        \<or> ListDI (classify_v32 M cfg n t g) = ListDI g @ [''@GV.'' @ n]
          \<and> ListDO (classify_v32 M cfg n t g) = ListDO g @ [Sprintf_spare (DO (Spares (App cfg))) n]
          \<and> ListDO (classify_v32 M cfg n t g) \<noteq> ListDO g @ [''@GV.'' @ n])"
    using spare_ne_reference [of _ n] by (simp add: classify_v32_digital)
  have ne: "Sprintf_spare s n \<noteq> ''@GV.'' @ n"
    by (rule spare_ne_reference)
  show ?thesis
    using a32 d32 ne classify_v22_analog [of t cfg' n g] classify_v22_digital [of t cfg' n g]
    by blast
qed

theorem reference_and_spare_witness:
  "analogTag_v32 ''AA''
   \<and> \<not> isMatchRegex sampleMatchString ''FT041_H_H'' (AnalogRegex (Classification (App sampleConfig_v32)))
   \<and> classify_v32 sampleMatchString sampleConfig_v32 ''FT041_H_H'' ''AA'' staleGlobals =
       staleGlobals\<lparr>ListAI := [''@GV.FT041_H_H''],
                    ListAO := [''stale'', ''SPARE_AO(FT041_H_H)'']\<rparr>
   \<and> analogTag_v22 ''AA'' \<and> isOutput_v22 ''T1_SP''
   \<and> classify_v22 sampleConfig_v22 ''T1_SP'' ''AA'' staleGlobals =
       staleGlobals\<lparr>ListAO := [''stale'', ''@GV.T1_SP''], ListAI := [''@GV.T1_SP'']\<rparr>
   \<and> digitalTag_v22 ''LA'' \<and> isCmd_v22 ''VALVE1_CMD''
   \<and> classify_v22 sampleConfig_v22 ''VALVE1_CMD'' ''LA'' staleGlobals =
       staleGlobals\<lparr>ListDO := [''@GV.VALVE1_CMD''], ListDI := [''stale'', ''stale'', ''SPARE_DI'']\<rparr>"
proof -
  have t1: "analogTag_v32 ''AA''"
    by code_simp
  have m1: "\<not> isMatchRegex sampleMatchString ''FT041_H_H''
                (AnalogRegex (Classification (App sampleConfig_v32)))"
    by code_simp
  have t2: "analogTag_v22 ''AA''"
    by code_simp
  have m2: "isOutput_v22 ''T1_SP''"
    by code_simp
  have t3: "digitalTag_v22 ''LA''"
    by code_simp
  have m3: "isCmd_v22 ''VALVE1_CMD''"
    by code_simp
  have s1: "Sprintf_spare (AO (Spares (App sampleConfig_v32))) ''FT041_H_H'' = ''SPARE_AO(FT041_H_H)''"
    by code_simp
  have s2: "DI (Spares (App sampleConfig_v22)) = ''SPARE_DI''"
    by code_simp
  have g: "ListAO staleGlobals = [''stale'']" "ListAI staleGlobals = []"
    "ListDO staleGlobals = []" "ListDI staleGlobals = [''stale'', ''stale'']"
    by (simp_all add: staleGlobals_def)
  note A = reference_and_spare [where t = "''AA''" and M = sampleMatchString
      and cfg = sampleConfig_v32 and n = "''FT041_H_H''" and g = staleGlobals,
      THEN conjunct1, THEN mp, OF t1, THEN conjunct1]
  note B = reference_and_spare [where t = "''AA''" and cfg' = sampleConfig_v22
      and n = "''T1_SP''" and g = staleGlobals,
      THEN conjunct2, THEN conjunct2, THEN conjunct2, THEN conjunct1, THEN mp, OF t2]
  note C = reference_and_spare [where t = "''LA''" and cfg' = sampleConfig_v22
      and n = "''VALVE1_CMD''" and g = staleGlobals,
      THEN conjunct2, THEN conjunct2, THEN conjunct2, THEN conjunct2, THEN mp, OF t3]
  have e1: "classify_v32 sampleMatchString sampleConfig_v32 ''FT041_H_H'' ''AA'' staleGlobals =
       staleGlobals\<lparr>ListAI := [''@GV.FT041_H_H''],
                    ListAO := [''stale'', ''SPARE_AO(FT041_H_H)'']\<rparr>"
    using A m1 by (simp add: s1 g)
  have e2: "classify_v22 sampleConfig_v22 ''T1_SP'' ''AA'' staleGlobals =
       staleGlobals\<lparr>ListAO := [''stale'', ''@GV.T1_SP''], ListAI := [''@GV.T1_SP'']\<rparr>"
    using B m2 by (simp add: g)
  have e3: "classify_v22 sampleConfig_v22 ''VALVE1_CMD'' ''LA'' staleGlobals =
       staleGlobals\<lparr>ListDO := [''@GV.VALVE1_CMD''], ListDI := [''stale'', ''stale'', ''SPARE_DI'']\<rparr>"
    using C m3 by (simp add: s2 g)
  show ?thesis
    using t1 m1 t2 m2 t3 m3 e1 e2 e3 by blast
qed

text \<open>
  The claim as stated fails in version 2.2: the point \<open>T1_SP\<close> of type \<open>AA\<close> is classified
  as output by the heuristic (its name contains \<open>_SP\<close> and not \<open>_SPAN\<close>), and the opposite
  list, \<open>ListAI\<close>, receives the reference itself.
\<close>

theorem v22_analog_output_mirrors_reference:
  "HasPrefix (TrimSpace ''SIG=@GV.T1_SP TYPE=AA'') ''SIG=''
   \<and> FindStringSubmatch (TrimSpace ''SIG=@GV.T1_SP TYPE=AA'') = Some (''T1_SP'', ''AA'')
   \<and> ListAO (scanLine_v22 sampleConfig_v22 ''SIG=@GV.T1_SP TYPE=AA'' noEntries) = [''@GV.T1_SP'']
   \<and> ListAI (scanLine_v22 sampleConfig_v22 ''SIG=@GV.T1_SP TYPE=AA'' noEntries) = [''@GV.T1_SP'']"
  by code_simp

section \<open>The lists file\<close>

lemma foldl_Fprintln: "foldl Fprintln w entries = w @ spec_text entries"
  by (induction entries arbitrary: w) (simp_all add: Fprintln_def spec_text_def)

lemma spec_text_append: "spec_text (xs @ ys) = spec_text xs @ spec_text ys"
  by (simp add: spec_text_def)

lemma write_list_spec:
  "write_list w code title entries = w @ spec_text (spec_section code title entries)"
  by (simp add: write_list_def foldl_Fprintln Fprintln_def Fprintf_header_def
        spec_section_def spec_text_def)

text \<open>
  Claim C6, as the code has it. When the file is created and flushed, its content is four
  sections, each a header line \<open>*LIST code   'title'\<close>, one line per entry in the order of
  the list and one empty line. Version 3.2 writes them in the order analog inputs
  (32761), analog outputs (32762), digital inputs (32763), digital outputs (32764);
  version 2.2 writes the same four sections in the opposite order. The codes and titles
  are constants of the program. When the creation or the flush fails, the error is
  returned.
\<close>

theorem lists_file_format:
  "generateListsFile_v32 None None g =
     Inr (spec_text
       (spec_section ''32761'' ''ENTRADAS ANALOGICAS DNP'' (ListAI g) @
        spec_section ''32762'' ''SALIDAS ANALOGICAS DNP'' (ListAO g) @
        spec_section ''32763'' ''ENTRADAS DIGITALES DNP'' (ListDI g) @
        spec_section ''32764'' ''SALIDAS DIGITALES DNP'' (ListDO g)))
   \<and> generateListsFile_v22 None None g =
     Inr (spec_text
       (spec_section ''32764'' ''SALIDAS DIGITALES DNP'' (ListDO g) @
        spec_section ''32763'' ''ENTRADAS DIGITALES DNP'' (ListDI g) @
        spec_section ''32762'' ''SALIDAS ANALOGICAS DNP'' (ListAO g) @
        spec_section ''32761'' ''ENTRADAS ANALOGICAS DNP'' (ListAI g)))
   \<and> generateListsFile_v32 (Some e) flushed g = Inl e
   \<and> generateListsFile_v32 None (Some e) g = Inl e
   \<and> generateListsFile_v22 (Some e) flushed g = Inl e
   \<and> generateListsFile_v22 None (Some e) g = Inl e"
  by (simp add: generateListsFile_v32_def generateListsFile_v22_def write_list_spec
        spec_text_append Let_def)

theorem lists_file_format_witness:
  "generateListsFile_v32 None None sampleLists =
     Inr (''*LIST 32761   '' @ [CHR 0x27] @ ''ENTRADAS ANALOGICAS DNP'' @ [CHR 0x27, CHR 0x0A] @
          ''SPARE_AI(PUMP2)'' @ [CHR 0x0A, CHR 0x0A] @
          ''*LIST 32762   '' @ [CHR 0x27] @ ''SALIDAS ANALOGICAS DNP'' @ [CHR 0x27, CHR 0x0A] @
          ''@GV.PUMP2'' @ [CHR 0x0A, CHR 0x0A] @
          ''*LIST 32763   '' @ [CHR 0x27] @ ''ENTRADAS DIGITALES DNP'' @ [CHR 0x27, CHR 0x0A] @
          ''SPARE_DI(VALVE1_CMD)'' @ [CHR 0x0A, CHR 0x0A] @
          ''*LIST 32764   '' @ [CHR 0x27] @ ''SALIDAS DIGITALES DNP'' @ [CHR 0x27, CHR 0x0A] @
          ''@GV.VALVE1_CMD'' @ [CHR 0x0A, CHR 0x0A])"
  using lists_file_format [of sampleLists]
  by (simp add: sampleLists_def spec_text_def spec_section_def)

text \<open>
  The claim as stated fails in version 2.2: the first section of the file is the digital
  outputs and the last is the analog inputs.
\<close>

theorem v22_file_starts_with_digital_outputs:
  "generateListsFile_v22 None None sampleLists =
     Inr (''*LIST 32764   '' @ [CHR 0x27] @ ''SALIDAS DIGITALES DNP'' @ [CHR 0x27, CHR 0x0A] @
          ''@GV.VALVE1_CMD'' @ [CHR 0x0A, CHR 0x0A] @
          ''*LIST 32763   '' @ [CHR 0x27] @ ''ENTRADAS DIGITALES DNP'' @ [CHR 0x27, CHR 0x0A] @
          ''SPARE_DI(VALVE1_CMD)'' @ [CHR 0x0A, CHR 0x0A] @
          ''*LIST 32762   '' @ [CHR 0x27] @ ''SALIDAS ANALOGICAS DNP'' @ [CHR 0x27, CHR 0x0A] @
          ''@GV.PUMP2'' @ [CHR 0x0A, CHR 0x0A] @
          ''*LIST 32761   '' @ [CHR 0x27] @ ''ENTRADAS ANALOGICAS DNP'' @ [CHR 0x27, CHR 0x0A] @
          ''SPARE_AI(PUMP2)'' @ [CHR 0x0A, CHR 0x0A])"
  by code_simp


end
